theory Spec2Isabelle
  imports Main "HOL-Library.Word" "HOL-Library.Sublist"
begin

section \<open>JavaScript strings\<close>

text \<open>
  A JavaScript string is a sequence of UTF-16 code units. The line-terminator test of the
  regular expression in \<^verbatim>\<open>Console.tsx\<close> looks at code units beyond ASCII
  (U+2028, U+2029), so a string is a list of 16-bit words rather than of bytes.
\<close>

type_synonym jschar = "16 word"
type_synonym jsstring = "jschar list"

definition js :: "string \<Rightarrow> jsstring" where
  "js s = map of_char s"

definition LF :: jschar where "LF = 0x0A"
definition CR :: jschar where "CR = 0x0D"
definition ESC :: jschar where "ESC = 0x1B"

text \<open>\<^verbatim>\<open>'\u001b[0m'\<close>, the marker that closes every string the component writes.\<close>

definition RESET :: jsstring where
  "RESET = ESC # js ''[0m''"

text \<open>\<^verbatim>\<open>const TERMINAL_PRELUDE = '\u001b[1m\u001b[33mcontainer@pterodactyl~ \u001b[0m'\<close>\<close>

definition TERMINAL_PRELUDE :: jsstring where
  "TERMINAL_PRELUDE =
     ESC # js ''[1m'' @ ESC # js ''[33mcontainer@pterodactyl~ '' @ ESC # js ''[0m''"

section \<open>The regular expression \<^verbatim>\<open>/(?:\r\n|\r|\n)$/im\<close>\<close>

text \<open>
  ECMAScript \<^verbatim>\<open>LineTerminator\<close>: LF, CR, LS (U+2028), PS (U+2029).
\<close>

definition isLineTerminator :: "jschar \<Rightarrow> bool" where
  "isLineTerminator c = (c = 0x0A \<or> c = 0x0D \<or> c = 0x2028 \<or> c = 0x2029)"

text \<open>
  The assertion \<^verbatim>\<open>$\<close> under the \<^verbatim>\<open>m\<close> flag, evaluated on the rest of the input:
  it holds at the end of the input and in front of any line terminator.
\<close>

fun atLineEnd :: "jsstring \<Rightarrow> bool" where
  "atLineEnd [] = True"
| "atLineEnd (c # cs) = isLineTerminator c"

text \<open>The alternatives of the group \<^verbatim>\<open>(?:\r\n|\r|\n)\<close>, in the order they are tried.\<close>

definition terminatorAlternatives :: "jsstring list" where
  "terminatorAlternatives = [[CR, LF], [CR], [LF]]"

text \<open>
  One match attempt at the front of \<open>s\<close>: the alternatives are tried in order, and an
  alternative whose text matches but after which \<^verbatim>\<open>$\<close> fails is backtracked over.
  The result is the input left after the match. (The \<^verbatim>\<open>i\<close> flag changes nothing:
  CR and LF are their own canonical forms, and no other code unit canonicalises to them.)
\<close>

fun matchAlternatives :: "jsstring list \<Rightarrow> jsstring \<Rightarrow> jsstring option" where
  "matchAlternatives [] s = None"
| "matchAlternatives (a # as) s =
     (if take (length a) s = a \<and> atLineEnd (drop (length a) s)
      then Some (drop (length a) s)
      else matchAlternatives as s)"

text \<open>
  \<^verbatim>\<open>line.replace(/(?:\r\n|\r|\n)$/im, '')\<close>: without the \<^verbatim>\<open>g\<close> flag the first
  match, searched from index 0 upwards, is replaced by the empty string; with no match
  the string is returned as it is.
\<close>

fun replaceTerminator :: "jsstring \<Rightarrow> jsstring" where
  "replaceTerminator [] = []"
| "replaceTerminator (c # cs) =
     (case matchAlternatives terminatorAlternatives (c # cs) of
        Some rest \<Rightarrow> rest
      | None \<Rightarrow> c # replaceTerminator cs)"

section \<open>The collaborators: terminal and connection\<close>

text \<open>
  The objects the component talks to are owned by other layers: the xterm terminal
  (\<^verbatim>\<open>terminal.writeln\<close>, \<^verbatim>\<open>terminal.clear\<close>) and the websocket instance
  (\<^verbatim>\<open>addListener\<close>, \<^verbatim>\<open>removeListener\<close>, \<^verbatim>\<open>send\<close>). They are one record:
  the visible buffer, the listeners registered on the instances, the requests sent, and
  the log of every call in the order it was made.
\<close>

text \<open>An instance is an object reference; two references are equal when they are the same number.\<close>

type_synonym inst = nat

text \<open>
  The functions the component hands to \<^verbatim>\<open>addListener\<close>. The fourth is the arrow
  function \<^verbatim>\<open>line => handleConsoleOutput(line, true)\<close>.
\<close>

datatype handlerKind =
    HandlePowerChangeEvent
  | HandleConsoleOutput
  | HandleTransferStatus
  | HandleDaemonMessage
  | HandleDaemonErrorOutput

text \<open>
  A function value is a closure, compared by reference: the closures of one run of the
  component body differ from those of every other run. The number is the run that made it.
\<close>

type_synonym handler = "nat \<times> handlerKind"

datatype call =
    TerminalClear
  | TerminalWriteln jsstring
  | AddListener inst jsstring handler
  | RemoveListener inst jsstring handler
  | Send inst jsstring "jsstring option"

record world =
  buffer :: "jsstring list"
  registry :: "(inst \<times> jsstring \<times> handler) list"
  outbox :: "(inst \<times> jsstring \<times> jsstring option) list"
  calls :: "call list"

text \<open>
  Modelled from the spec: the rendering surface (xterm's \<^verbatim>\<open>Terminal\<close>, not part of this
  repository). Section 3 gives the visible buffer as an ordered sequence of rendered lines
  that the core only appends to or clears in full.
\<close>

definition terminal_writeln :: "jsstring \<Rightarrow> world \<Rightarrow> world" where
  "terminal_writeln line w =
     w\<lparr>buffer := buffer w @ [line], calls := calls w @ [TerminalWriteln line]\<rparr>"

definition terminal_clear :: "world \<Rightarrow> world" where
  "terminal_clear w = w\<lparr>buffer := [], calls := calls w @ [TerminalClear]\<rparr>"

text \<open>
  Modelled from the spec: the connection instance (\<^verbatim>\<open>@/plugins/Websocket\<close>, an event
  emitter, absent from the sources at hand). Section 3 gives its three operations. A listener
  is added at the end of the instance's list; removing takes out the most recently added
  registration of that very function under that name and nothing when there is none;
  a delivered event runs the listeners of its name in the order they were added.
\<close>

definition addListener :: "inst \<Rightarrow> jsstring \<Rightarrow> handler \<Rightarrow> world \<Rightarrow> world" where
  "addListener i name h w =
     w\<lparr>registry := registry w @ [(i, name, h)], calls := calls w @ [AddListener i name h]\<rparr>"

definition remove_last :: "'a \<Rightarrow> 'a list \<Rightarrow> 'a list" where
  "remove_last x xs = rev (remove1 x (rev xs))"

definition removeListener :: "inst \<Rightarrow> jsstring \<Rightarrow> handler \<Rightarrow> world \<Rightarrow> world" where
  "removeListener i name h w =
     w\<lparr>registry := remove_last (i, name, h) (registry w),
       calls := calls w @ [RemoveListener i name h]\<rparr>"

definition send :: "inst \<Rightarrow> jsstring \<Rightarrow> jsstring option \<Rightarrow> world \<Rightarrow> world" where
  "send i name payload w =
     w\<lparr>outbox := outbox w @ [(i, name, payload)], calls := calls w @ [Send i name payload]\<rparr>"

section \<open>The line renderers of \<^verbatim>\<open>Console.tsx\<close>\<close>

text \<open>
  \<^verbatim>\<open>const handleConsoleOutput = (line: string, prelude = false) => terminal.writeln(
    (prelude ? TERMINAL_PRELUDE : '') + line.replace(/(?:\r\n|\r|\n)$/im, '') + '\u001b[0m')\<close>
\<close>

definition handleConsoleOutput :: "jsstring \<Rightarrow> bool \<Rightarrow> world \<Rightarrow> world" where
  "handleConsoleOutput line prelude w =
     terminal_writeln
       ((if prelude then TERMINAL_PRELUDE else []) @ replaceTerminator line @ RESET) w"

text \<open>
  The \<^verbatim>\<open>switch\<close> compares with \<^verbatim>\<open>===\<close>; the first case returns, the second falls
  out of the \<^verbatim>\<open>switch\<close>, and there is no default.
\<close>

definition handleTransferStatus :: "jsstring \<Rightarrow> world \<Rightarrow> world" where
  "handleTransferStatus status w =
     (if status = js ''failure'' then
        terminal_writeln (TERMINAL_PRELUDE @ js ''Transfer has failed.'' @ RESET) w
      else if status = js ''archive'' then
        terminal_writeln
          (TERMINAL_PRELUDE
             @ js ''Server has been archived successfully, attempting connection to target node..''
             @ RESET) w
      else w)"

text \<open>\<^verbatim>\<open>TERMINAL_PRELUDE + '\u001b[1m\u001b[41m' + line.replace(...) + '\u001b[0m'\<close>\<close>

definition handleDaemonErrorOutput :: "jsstring \<Rightarrow> world \<Rightarrow> world" where
  "handleDaemonErrorOutput line w =
     terminal_writeln
       (TERMINAL_PRELUDE @ (ESC # js ''[1m'' @ ESC # js ''[41m'')
          @ replaceTerminator line @ RESET) w"

text \<open>\<^verbatim>\<open>TERMINAL_PRELUDE + 'Server marked as ' + state + '...\u001b[0m'\<close>\<close>

definition handlePowerChangeEvent :: "jsstring \<Rightarrow> world \<Rightarrow> world" where
  "handlePowerChangeEvent state w =
     terminal_writeln
       (TERMINAL_PRELUDE @ js ''Server marked as '' @ state @ js ''...'' @ RESET) w"

text \<open>
  Calling a registered function with the one string an event carries. A listener called
  with one argument leaves \<^verbatim>\<open>prelude\<close> of \<^verbatim>\<open>handleConsoleOutput\<close> at its default.
\<close>

fun runHandler :: "handlerKind \<Rightarrow> jsstring \<Rightarrow> world \<Rightarrow> world" where
  "runHandler HandlePowerChangeEvent s w = handlePowerChangeEvent s w"
| "runHandler HandleConsoleOutput s w = handleConsoleOutput s False w"
| "runHandler HandleTransferStatus s w = handleTransferStatus s w"
| "runHandler HandleDaemonMessage s w = handleConsoleOutput s True w"
| "runHandler HandleDaemonErrorOutput s w = handleDaemonErrorOutput s w"

text \<open>Delivery of one event to an instance: every listener of that name runs, in order.\<close>

definition listenersOf :: "inst \<Rightarrow> jsstring \<Rightarrow> world \<Rightarrow> handler list" where
  "listenersOf i name w =
     map (\<lambda>(j, n, h). h) (filter (\<lambda>(j, n, h). j = i \<and> n = name) (registry w))"

definition emit :: "inst \<Rightarrow> jsstring \<Rightarrow> jsstring \<Rightarrow> world \<Rightarrow> world" where
  "emit i name payload w = fold (\<lambda>h. runHandler (snd h) payload) (listenersOf i name w) w"

section \<open>Keyboard input: \<^verbatim>\<open>handleCommandKeyDown\<close>\<close>

text \<open>
  What the handler reads and writes: the persisted history, the history cursor
  (\<^verbatim>\<open>useState(-1)\<close>), the text of the input element (\<^verbatim>\<open>e.currentTarget.value\<close>) and
  whether \<^verbatim>\<open>preventDefault\<close> was called on the event being handled.
\<close>

record console =
  history :: "jsstring list"
  historyIndex :: int
  inputValue :: jsstring
  defaultPrevented :: bool

text \<open>\<^verbatim>\<open>xs[i]\<close>: out of range (in particular at \<open>-1\<close>) the value is \<^verbatim>\<open>undefined\<close>.\<close>

definition index :: "'a list \<Rightarrow> int \<Rightarrow> 'a option" where
  "index xs i = (if 0 \<le> i \<and> i < int (length xs) then Some (xs ! nat i) else None)"

text \<open>\<^verbatim>\<open>x || ''\<close>: \<^verbatim>\<open>undefined\<close> and the empty string are both falsy.\<close>

definition orEmpty :: "jsstring option \<Rightarrow> jsstring" where
  "orEmpty x = (case x of None \<Rightarrow> [] | Some s \<Rightarrow> if s = [] then [] else s)"

text \<open>
  Assigning to \<^verbatim>\<open>e.currentTarget.value\<close>. The element is \<^verbatim>\<open>CommandInput\<close>, a
  \<^verbatim>\<open>styled.input\<close> rendered with \<^verbatim>\<open>type={'text'}\<close>: a text input keeps no line
  break, its value setter drops every CR and LF of what it is given.
\<close>

definition setValue :: "jsstring \<Rightarrow> jsstring" where
  "setValue v = filter (\<lambda>ch. ch \<noteq> LF \<and> ch \<noteq> CR) v"

text \<open>
  The three \<^verbatim>\<open>if\<close>s run one after the other. \<^verbatim>\<open>historyIndex\<close> and \<^verbatim>\<open>history\<close> in the
  arrow branches are the values of the render the handler was made in; the updater given
  to \<^verbatim>\<open>setHistory\<close> gets the current history; \<^verbatim>\<open>command\<close> is read from the input
  element after the arrow branches; \<^verbatim>\<open>instance && instance.send(...)\<close> sends only to an
  instance that is there. Every event arrives with \<^verbatim>\<open>defaultPrevented\<close> false.
\<close>

definition handleCommandKeyDown ::
    "inst option \<Rightarrow> jsstring \<Rightarrow> console \<times> world \<Rightarrow> console \<times> world" where
  "handleCommandKeyDown instance key cw =
     (let c = fst cw; w = snd cw;
          c0 = c\<lparr>defaultPrevented := False\<rparr>;
          c1 = (if key = js ''ArrowUp'' then
                  (let newIndex = min (historyIndex c + 1) (int (length (history c)) - 1)
                   in c0\<lparr>historyIndex := newIndex,
                         inputValue := setValue (orEmpty (index (history c) newIndex)),
                         defaultPrevented := True\<rparr>)
                else c0);
          c2 = (if key = js ''ArrowDown'' then
                  (let newIndex = max (historyIndex c - 1) (- 1)
                   in c1\<lparr>historyIndex := newIndex,
                         inputValue := setValue (orEmpty (index (history c) newIndex))\<rparr>)
                else c1);
          command = inputValue c2
      in if key = js ''Enter'' \<and> length command > 0 then
           (c2\<lparr>history := take 32 (command # history c2),
                historyIndex := - 1,
                inputValue := setValue []\<rparr>,
            (case instance of
               Some i \<Rightarrow> send i (js ''send command'') (Some command) w
             | None \<Rightarrow> w))
         else (c2, w))"

text \<open>A run of key events; the component renders again between two of them.\<close>

definition pressKeys ::
    "inst option \<Rightarrow> jsstring list \<Rightarrow> console \<times> world \<Rightarrow> console \<times> world" where
  "pressKeys instance keys cw = fold (handleCommandKeyDown instance) keys cw"

text \<open>Submitting a command: the user's text is in the input element when Enter arrives.\<close>

definition submit :: "inst option \<Rightarrow> jsstring \<Rightarrow> console \<times> world \<Rightarrow> console \<times> world" where
  "submit instance command cw =
     handleCommandKeyDown instance (js ''Enter'') ((fst cw)\<lparr>inputValue := command\<rparr>, snd cw)"

section \<open>Connection lifecycle: the effect on \<^verbatim>\<open>[connected, instance]\<close>\<close>

text \<open>
  Modelled from the spec: the members of \<^verbatim>\<open>SocketEvent\<close>
  (\<^verbatim>\<open>@/components/server/events\<close>, absent from the sources at hand) that the component
  uses, with the names section 6 gives them.
\<close>

datatype SocketEvent =
    STATUS
  | CONSOLE_OUTPUT
  | INSTALL_OUTPUT
  | TRANSFER_LOGS
  | TRANSFER_STATUS
  | DAEMON_MESSAGE
  | DAEMON_ERROR

fun eventName :: "SocketEvent \<Rightarrow> jsstring" where
  "eventName STATUS = js ''status''"
| "eventName CONSOLE_OUTPUT = js ''console output''"
| "eventName INSTALL_OUTPUT = js ''install output''"
| "eventName TRANSFER_LOGS = js ''transfer logs''"
| "eventName TRANSFER_STATUS = js ''transfer status''"
| "eventName DAEMON_MESSAGE = js ''daemon message''"
| "eventName DAEMON_ERROR = js ''daemon error''"

definition recognizedEvents :: "SocketEvent list" where
  "recognizedEvents =
     [STATUS, CONSOLE_OUTPUT, INSTALL_OUTPUT, TRANSFER_LOGS, TRANSFER_STATUS,
      DAEMON_MESSAGE, DAEMON_ERROR]"

text \<open>
  Modelled from the spec: \<^verbatim>\<open>SocketRequest.SEND_LOGS\<close>, the request section 4.2 calls
  "send logs".
\<close>

definition SEND_LOGS :: jsstring where
  "SEND_LOGS = js ''send logs''"

text \<open>
  An object literal with computed keys: a key written twice keeps its first position and
  takes the later value. \<^verbatim>\<open>Object.keys\<close> lists the keys in the order they were created.
\<close>

fun defineProperty :: "'k \<Rightarrow> 'v \<Rightarrow> ('k \<times> 'v) list \<Rightarrow> ('k \<times> 'v) list" where
  "defineProperty k v [] = [(k, v)]"
| "defineProperty k v ((k', v') # ps) =
     (if k' = k then (k, v) # ps else (k', v') # defineProperty k v ps)"

text \<open>The \<^verbatim>\<open>listeners\<close> record of run \<open>n\<close> of the effect, in the order of the source.\<close>

definition listeners :: "nat \<Rightarrow> (jsstring \<times> handler) list" where
  "listeners n =
     fold (\<lambda>(e, k). defineProperty (eventName e) (n, k))
       [(STATUS, HandlePowerChangeEvent),
        (CONSOLE_OUTPUT, HandleConsoleOutput),
        (INSTALL_OUTPUT, HandleConsoleOutput),
        (TRANSFER_LOGS, HandleConsoleOutput),
        (TRANSFER_STATUS, HandleTransferStatus),
        (DAEMON_MESSAGE, HandleDaemonMessage),
        (DAEMON_ERROR, HandleDaemonErrorOutput)] []"

text \<open>
  \<^verbatim>\<open>Object.keys(listeners).forEach(key => f(key, listeners[key]))\<close>. Every key looked up
  is a key of the record, so the lookup never gives \<^verbatim>\<open>undefined\<close>.
\<close>

definition forEachKey ::
    "(jsstring \<Rightarrow> handler \<Rightarrow> world \<Rightarrow> world) \<Rightarrow> (jsstring \<times> handler) list \<Rightarrow> world \<Rightarrow> world" where
  "forEachKey f obj w =
     fold (\<lambda>key w'. case map_of obj key of Some h \<Rightarrow> f key h w' | None \<Rightarrow> w') (map fst obj) w"

text \<open>
  What a render gives the effect: \<^verbatim>\<open>connected\<close> and \<^verbatim>\<open>instance\<close> of the socket
  state (the latter \<^verbatim>\<open>null\<close> or an object) and the transfer flag of the server.
\<close>

record props =
  connected :: bool
  socketInstance :: "inst option"
  isTransferring :: bool

text \<open>The body of the effect, in run \<open>n\<close> of the effect.\<close>

definition effectBody :: "nat \<Rightarrow> props \<Rightarrow> world \<Rightarrow> world" where
  "effectBody n p w =
     (case socketInstance p of
        Some i \<Rightarrow>
          if connected p then
            (let w1 = (if \<not> isTransferring p then terminal_clear w else w);
                 w2 = forEachKey (addListener i) (listeners n) w1
             in send i SEND_LOGS None w2)
          else w
      | None \<Rightarrow> w)"

text \<open>
  The function the effect returns. It closes over the \<^verbatim>\<open>instance\<close> and the
  \<^verbatim>\<open>listeners\<close> of the run that made it.
\<close>

definition effectCleanup :: "nat \<Rightarrow> props \<Rightarrow> world \<Rightarrow> world" where
  "effectCleanup n p w =
     (case socketInstance p of
        Some i \<Rightarrow> forEachKey (removeListener i) (listeners n) w
      | None \<Rightarrow> w)"

text \<open>
  \<^verbatim>\<open>useEffect(f, [connected, instance])\<close>: the effect runs after the first render and after
  every render in which one of the two dependencies differs from the render before
  (\<^verbatim>\<open>instance\<close> by reference); the cleanup of the previous run is called first, and the
  last cleanup is called when the component is removed. The component remembers the props
  of the effect's last run and the number of that run.
\<close>

record component =
  lastProps :: props
  lastRun :: nat

definition mount :: "props \<Rightarrow> world \<Rightarrow> component \<times> world" where
  "mount p w = (\<lparr>lastProps = p, lastRun = 0\<rparr>, effectBody 0 p w)"

definition depsChanged :: "props \<Rightarrow> props \<Rightarrow> bool" where
  "depsChanged old new = (connected old \<noteq> connected new \<or> socketInstance old \<noteq> socketInstance new)"

definition rerender :: "props \<Rightarrow> component \<times> world \<Rightarrow> component \<times> world" where
  "rerender p cw =
     (let c = fst cw; w = snd cw in
      if depsChanged (lastProps c) p then
        (\<lparr>lastProps = p, lastRun = Suc (lastRun c)\<rparr>,
         effectBody (Suc (lastRun c)) p (effectCleanup (lastRun c) (lastProps c) w))
      else (c, w))"

definition unmount :: "component \<times> world \<Rightarrow> world" where
  "unmount cw = effectCleanup (lastRun (fst cw)) (lastProps (fst cw)) (snd cw)"

text \<open>The joint condition under which the event router is active.\<close>

definition active :: "props \<Rightarrow> bool" where
  "active p = (connected p \<and> socketInstance p \<noteq> None)"

text \<open>Events delivered one after the other: instance, event name, payload.\<close>

definition deliver :: "(inst \<times> jsstring \<times> jsstring) list \<Rightarrow> world \<Rightarrow> world" where
  "deliver evs w = fold (\<lambda>(i, name, payload). emit i name payload) evs w"

text \<open>
  The state the component starts in: \<^verbatim>\<open>usePersistedState(..., [])\<close> with nothing stored,
  \<^verbatim>\<open>useState(-1)\<close>, an empty input element; a terminal nothing was written to and a
  connection nobody listens to.
\<close>

definition initialConsole :: console where
  "initialConsole = \<lparr>history = [], historyIndex = - 1, inputValue = [], defaultPrevented = False\<rparr>"

definition emptyWorld :: world where
  "emptyWorld = \<lparr>buffer = [], registry = [], outbox = [], calls = []\<rparr>"

section \<open>Facts about the regular expression\<close>

lemmas regex_defs = js_def CR_def LF_def terminatorAlternatives_def isLineTerminator_def

lemma replaceTerminator_no_match:
  "\<forall>c \<in> set s. c \<noteq> CR \<and> c \<noteq> LF \<Longrightarrow> replaceTerminator s = s"
  by (induction s) (auto simp: terminatorAlternatives_def)

text \<open>
  On a payload that is one line, a body without CR and LF followed by at most one
  terminator, the replacement takes off exactly the terminator.
\<close>

lemma replaceTerminator_trailing:
  assumes "\<forall>c \<in> set body. c \<noteq> CR \<and> c \<noteq> LF"
    and "t \<in> {[], [CR, LF], [CR], [LF]}"
  shows "replaceTerminator (body @ t) = body"
  using assms
proof (induction body)
  case Nil
  then show ?case by (auto simp: regex_defs)
next
  case (Cons c body)
  then show ?case by (auto simp: terminatorAlternatives_def)
qed

section \<open>Facts about the key handler\<close>

lemma setValue_Nil: "setValue [] = []"
  by (simp add: setValue_def)

text \<open>The setter changes nothing in a string without CR and LF, and leaves none behind.\<close>

lemma setValue_clean: "CR \<notin> set v \<Longrightarrow> LF \<notin> set v \<Longrightarrow> setValue v = v"
  by (auto simp: setValue_def filter_id_conv)

lemma setValue_no_newline: "CR \<notin> set (setValue v) \<and> LF \<notin> set (setValue v)"
  by (simp add: setValue_def)

lemma key_names_distinct:
  "js ''ArrowUp'' \<noteq> js ''ArrowDown''" "js ''ArrowUp'' \<noteq> js ''Enter''"
  "js ''ArrowDown'' \<noteq> js ''Enter''" "js ''ArrowDown'' \<noteq> js ''ArrowUp''"
  "js ''Enter'' \<noteq> js ''ArrowUp''" "js ''Enter'' \<noteq> js ''ArrowDown''"
  by (simp_all add: js_def)

lemma arrowUp_step:
  "handleCommandKeyDown i (js ''ArrowUp'') (c, w) =
     (c\<lparr>historyIndex := min (historyIndex c + 1) (int (length (history c)) - 1),
        inputValue :=
          setValue
            (orEmpty (index (history c) (min (historyIndex c + 1) (int (length (history c)) - 1)))),
        defaultPrevented := True\<rparr>, w)"
  by (simp add: handleCommandKeyDown_def Let_def key_names_distinct)

lemma arrowDown_step:
  "handleCommandKeyDown i (js ''ArrowDown'') (c, w) =
     (c\<lparr>defaultPrevented := False,
        historyIndex := max (historyIndex c - 1) (- 1),
        inputValue :=
          setValue (orEmpty (index (history c) (max (historyIndex c - 1) (- 1))))\<rparr>, w)"
  by (simp add: handleCommandKeyDown_def Let_def key_names_distinct)

lemma enter_step:
  "handleCommandKeyDown i (js ''Enter'') (c, w) =
     (if inputValue c = [] then (c\<lparr>defaultPrevented := False\<rparr>, w)
      else (c\<lparr>defaultPrevented := False,
              history := take 32 (inputValue c # history c),
              historyIndex := - 1,
              inputValue := []\<rparr>,
            case i of Some j \<Rightarrow> send j (js ''send command'') (Some (inputValue c)) w
                    | None \<Rightarrow> w))"
  by (simp add: handleCommandKeyDown_def Let_def key_names_distinct setValue_Nil
      split: option.split)

lemma orEmpty_index:
  "orEmpty (index xs i) = (if 0 \<le> i \<and> i < int (length xs) then xs ! nat i else [])"
  by (simp add: orEmpty_def index_def)

text \<open>
  One arrow key keeps the cursor in range and shows the entry under the cursor, as the
  input element keeps it.
\<close>

lemma nav_step:
  assumes "- 1 \<le> historyIndex c" and "historyIndex c \<le> int (length (history c)) - 1"
    and "key = js ''ArrowUp'' \<or> key = js ''ArrowDown''"
    and "c' = fst (handleCommandKeyDown i key (c, w))"
  shows "history c' = history c \<and> - 1 \<le> historyIndex c'
     \<and> historyIndex c' \<le> int (length (history c)) - 1
     \<and> inputValue c' =
         setValue (if 0 \<le> historyIndex c' then history c ! nat (historyIndex c') else [])"
  using assms by (auto simp: arrowUp_step arrowDown_step orEmpty_index)

lemma nav_keys:
  assumes "- 1 \<le> historyIndex c" and "historyIndex c \<le> int (length (history c)) - 1"
    and "set keys \<subseteq> {js ''ArrowUp'', js ''ArrowDown''}"
    and "c' = fst (pressKeys i keys (c, w))"
  shows "history c' = history c \<and> - 1 \<le> historyIndex c'
     \<and> historyIndex c' \<le> int (length (history c)) - 1
     \<and> (keys \<noteq> [] \<longrightarrow>
          inputValue c' =
            setValue (if 0 \<le> historyIndex c' then history c ! nat (historyIndex c') else []))"
  using assms(3,4)
proof (induction keys arbitrary: c' rule: rev_induct)
  case Nil
  then show ?case using assms(1,2) by (simp add: pressKeys_def)
next
  case (snoc k ks)
  obtain c1 w1 where cw: "pressKeys i ks (c, w) = (c1, w1)"
    by (cases "pressKeys i ks (c, w)")
  with snoc have inv: "history c1 = history c" "- 1 \<le> historyIndex c1"
    "historyIndex c1 \<le> int (length (history c)) - 1"
    by simp_all
  from snoc.prems have k: "k = js ''ArrowUp'' \<or> k = js ''ArrowDown''" by auto
  have "c' = fst (handleCommandKeyDown i k (c1, w1))"
    using cw snoc.prems(2) by (simp add: pressKeys_def)
  then show ?case
    using nav_step [of c1 k c' i w1] inv k by simp
qed

text \<open>
  What the element shows for an entry with a line break inside: the entry without it.
\<close>

lemma arrowUp_drops_line_breaks:
  "inputValue (fst (handleCommandKeyDown i (js ''ArrowUp'')
       (initialConsole\<lparr>history := [js ''a'' @ [LF] @ js ''b'']\<rparr>, w))) = js ''ab''"
  unfolding arrowUp_step
  by (simp add: initialConsole_def orEmpty_index setValue_def js_def LF_def CR_def)

text \<open>Any other key leaves everything as it is.\<close>

lemma other_step:
  "key \<noteq> js ''ArrowUp'' \<Longrightarrow> key \<noteq> js ''ArrowDown'' \<Longrightarrow> key \<noteq> js ''Enter'' \<Longrightarrow>
     handleCommandKeyDown i key (c, w) = (c\<lparr>defaultPrevented := False\<rparr>, w)"
  by (simp add: handleCommandKeyDown_def Let_def)

text \<open>
  Entries without CR and LF are all the component itself ever stores: when the input
  element and the history hold none, no key event brings one in.
\<close>

lemma no_line_break_after_key:
  assumes "\<forall>e \<in> set (history c). CR \<notin> set e \<and> LF \<notin> set e"
    and "CR \<notin> set (inputValue c) \<and> LF \<notin> set (inputValue c)"
    and "c' = fst (handleCommandKeyDown i key (c, w))"
  shows "(\<forall>e \<in> set (history c'). CR \<notin> set e \<and> LF \<notin> set e)
     \<and> CR \<notin> set (inputValue c') \<and> LF \<notin> set (inputValue c')"
proof -
  consider "key = js ''ArrowUp''" | "key = js ''ArrowDown''" | "key = js ''Enter''"
    | "key \<noteq> js ''ArrowUp''" "key \<noteq> js ''ArrowDown''" "key \<noteq> js ''Enter''"
    by blast
  then show ?thesis
  proof cases
    case 1
    with assms(1,3) show ?thesis by (simp add: arrowUp_step setValue_no_newline)
  next
    case 2
    with assms(1,3) show ?thesis by (simp add: arrowDown_step setValue_no_newline)
  next
    case 3
    have "set (take 32 (inputValue c # history c)) \<subseteq> insert (inputValue c) (set (history c))"
      using set_take_subset [of 32 "inputValue c # history c"] by simp
    with 3 assms show ?thesis by (auto simp: enter_step)
  next
    case 4
    with assms show ?thesis by (simp add: other_step)
  qed
qed

lemma length_history_after_key:
  "length (history c) \<le> 32 \<Longrightarrow>
     length (history (fst (handleCommandKeyDown i key (c, w)))) \<le> 32"
  by (simp add: handleCommandKeyDown_def Let_def)

lemma submit_history:
  "command \<noteq> [] \<Longrightarrow> history (fst (submit i command (c, w))) = take 32 (command # history c)"
  by (simp add: submit_def enter_step)

lemma take_append_take: "take n (xs @ take n ys) = take n (xs @ ys)"
  by (simp add: min_def)

lemma submit_all_bounded:
  "[] \<notin> set commands \<Longrightarrow> length (history c) \<le> 32 \<Longrightarrow>
     history (fst (fold (submit i) commands (c, w))) = take 32 (rev commands @ history c)"
proof (induction commands arbitrary: c w)
  case Nil
  then show ?case by simp
next
  case (Cons a commands)
  obtain c' w' where s: "submit i a (c, w) = (c', w')" by (cases "submit i a (c, w)")
  from Cons.prems have a: "a \<noteq> []" and rest: "[] \<notin> set commands" by auto
  have h: "history c' = take 32 (a # history c)"
    using submit_history [OF a, of i c w] s by simp
  then have l: "length (history c') \<le> 32" by simp
  have "history (fst (fold (submit i) (a # commands) (c, w))) =
        take 32 (rev commands @ take 32 (a # history c))"
    using Cons.IH [OF rest l, of w'] s h by simp
  also have "\<dots> = take 32 (rev (a # commands) @ history c)"
    by (simp only: take_append_take) simp
  finally show ?case .
qed

text \<open>The first submission trims whatever was stored, so no bound on the start is needed.\<close>

lemma submit_all_history:
  assumes "[] \<notin> set commands" and "commands \<noteq> []"
  shows "history (fst (fold (submit i) commands (c, w))) = take 32 (rev commands @ history c)"
proof -
  obtain a rest where cs: "commands = a # rest" using assms(2) by (cases commands) auto
  obtain c' w' where s: "submit i a (c, w) = (c', w')" by (cases "submit i a (c, w)")
  from assms(1) cs have a: "a \<noteq> []" and rest: "[] \<notin> set rest" by auto
  have h: "history c' = take 32 (a # history c)"
    using submit_history [OF a, of i c w] s by simp
  then have l: "length (history c') \<le> 32" by simp
  have "history (fst (fold (submit i) commands (c, w))) =
        take 32 (rev rest @ take 32 (a # history c))"
    using submit_all_bounded [OF rest l, of i w'] s h cs by simp
  also have "\<dots> = take 32 (rev commands @ history c)"
    unfolding cs by (simp only: take_append_take) simp
  finally show ?thesis .
qed

section \<open>Facts about the effect\<close>

lemma listeners_eq:
  "listeners n =
     [(js ''status'', (n, HandlePowerChangeEvent)),
      (js ''console output'', (n, HandleConsoleOutput)),
      (js ''install output'', (n, HandleConsoleOutput)),
      (js ''transfer logs'', (n, HandleConsoleOutput)),
      (js ''transfer status'', (n, HandleTransferStatus)),
      (js ''daemon message'', (n, HandleDaemonMessage)),
      (js ''daemon error'', (n, HandleDaemonErrorOutput))]"
  by (simp add: listeners_def js_def)

text \<open>The keys of the record are the seven recognized names, each once.\<close>

lemma listeners_keys: "map fst (listeners n) = map eventName recognizedEvents"
  by (simp add: listeners_eq recognizedEvents_def)

lemma eventNames_distinct: "distinct (map eventName recognizedEvents)"
  by (simp add: recognizedEvents_def js_def)

lemma listeners_distinct: "distinct (listeners n)"
  using eventNames_distinct listeners_keys [of n] by (metis distinct_map)

text \<open>With keys that differ, looking each key up again gives back the entry itself.\<close>

lemma forEachKey_fold_aux:
  assumes "distinct (map fst obj)" and "set xs \<subseteq> set obj"
  shows "fold (\<lambda>key w'. case map_of obj key of Some h \<Rightarrow> f key h w' | None \<Rightarrow> w') (map fst xs) w =
         fold (\<lambda>(k, h). f k h) xs w"
  using assms(2)
proof (induction xs arbitrary: w)
  case Nil
  show ?case by simp
next
  case (Cons x xs)
  obtain k h where x: "x = (k, h)" by (cases x)
  with Cons.prems have "map_of obj k = Some h" using assms(1) by simp
  with Cons x show ?case by simp
qed

lemma forEachKey_fold:
  "distinct (map fst obj) \<Longrightarrow> forEachKey f obj w = fold (\<lambda>(k, h). f k h) obj w"
  unfolding forEachKey_def by (rule forEachKey_fold_aux) simp_all

lemma forEachKey_listeners:
  "forEachKey f (listeners n) w = fold (\<lambda>(k, h). f k h) (listeners n) w"
  by (rule forEachKey_fold) (simp add: listeners_keys eventNames_distinct)

lemma fold_addListener:
  "fold (\<lambda>(k, h). addListener i k h) xs w =
     w\<lparr>registry := registry w @ map (\<lambda>(k, h). (i, k, h)) xs,
       calls := calls w @ map (\<lambda>(k, h). AddListener i k h) xs\<rparr>"
  by (induction xs arbitrary: w) (auto simp: addListener_def)

lemma fold_removeListener:
  "fold (\<lambda>(k, h). removeListener i k h) xs w =
     w\<lparr>registry := fold remove_last (map (\<lambda>(k, h). (i, k, h)) xs) (registry w),
       calls := calls w @ map (\<lambda>(k, h). RemoveListener i k h) xs\<rparr>"
  by (induction xs arbitrary: w) (auto simp: removeListener_def)

text \<open>Removing what was added last, in any order of distinct entries, restores the list.\<close>

lemma remove_last_append:
  "x \<notin> set ys \<Longrightarrow> remove_last x (xs @ x # ys) = xs @ ys"
  by (simp add: remove_last_def remove1_append)

lemma fold_remove_last:
  "distinct ys \<Longrightarrow> fold remove_last ys (xs @ ys) = xs"
  by (induction ys arbitrary: xs) (simp_all add: remove_last_append)

text \<open>A handler writes to the terminal and touches nothing else.\<close>

lemma runHandler_keeps:
  "registry (runHandler k s w) = registry w" "outbox (runHandler k s w) = outbox w"
  by (cases k; simp add: handlePowerChangeEvent_def handleConsoleOutput_def
      handleTransferStatus_def handleDaemonErrorOutput_def terminal_writeln_def)+

lemma fold_runHandler_keeps:
  "registry (fold (\<lambda>h. runHandler (snd h) s) hs w) = registry w"
  "outbox (fold (\<lambda>h. runHandler (snd h) s) hs w) = outbox w"
  by (induction hs arbitrary: w; simp add: runHandler_keeps)+

lemma emit_keeps:
  "registry (emit i name s w) = registry w" "outbox (emit i name s w) = outbox w"
  by (simp_all add: emit_def fold_runHandler_keeps)

lemma deliver_keeps:
  "registry (deliver evs w) = registry w" "outbox (deliver evs w) = outbox w"
  by (induction evs arbitrary: w; simp add: deliver_def emit_keeps split: prod.split)+

text \<open>The effect and its cleanup, written out.\<close>

lemma effectBody_active:
  assumes "connected p" and "socketInstance p = Some i"
  shows "effectBody n p w =
     w\<lparr>buffer := (if isTransferring p then buffer w else []),
       registry := registry w @ map (\<lambda>(k, h). (i, k, h)) (listeners n),
       outbox := outbox w @ [(i, SEND_LOGS, None)],
       calls := calls w @ (if isTransferring p then [] else [TerminalClear])
                  @ map (\<lambda>(k, h). AddListener i k h) (listeners n)
                  @ [Send i SEND_LOGS None]\<rparr>"
  using assms
  by (simp add: effectBody_def forEachKey_listeners fold_addListener terminal_clear_def send_def)

lemma effectBody_inactive:
  "\<not> active p \<Longrightarrow> effectBody n p w = w"
  by (auto simp: effectBody_def active_def split: option.split)

lemma effectCleanup_Some:
  "socketInstance p = Some i \<Longrightarrow> effectCleanup n p w =
     w\<lparr>registry := fold remove_last (map (\<lambda>(k, h). (i, k, h)) (listeners n)) (registry w),
       calls := calls w @ map (\<lambda>(k, h). RemoveListener i k h) (listeners n)\<rparr>"
  by (simp add: effectCleanup_def forEachKey_listeners fold_removeListener)

lemma effectCleanup_buffer: "buffer (effectCleanup n p w) = buffer w"
  by (cases "socketInstance p") (simp_all add: effectCleanup_def forEachKey_listeners fold_removeListener)

lemma registered_distinct: "distinct (map (Pair i) (listeners n))"
  using listeners_distinct [of n] by (simp add: distinct_map inj_on_def)

lemma cleanup_after_effect:
  assumes "connected p" and "socketInstance p = Some i"
  shows "registry (effectCleanup n p (deliver evs (effectBody n p w))) = registry w"
  by (simp add: effectCleanup_Some [OF assms(2)] deliver_keeps effectBody_active [OF assms]
      fold_remove_last registered_distinct)

lemma emit_no_listeners:
  "\<forall>r \<in> set (registry w). fst r \<noteq> i \<Longrightarrow> emit i name s w = w"
proof -
  assume "\<forall>r \<in> set (registry w). fst r \<noteq> i"
  then have "filter (\<lambda>(j, n, h). j = i \<and> n = name) (registry w) = []"
    by (auto simp: filter_empty_conv)
  then show ?thesis by (simp add: emit_def listenersOf_def)
qed

lemma effectCleanup_calls:
  "calls (effectCleanup n q w) =
     calls w @ (case socketInstance q of
                  None \<Rightarrow> []
                | Some j \<Rightarrow> map (\<lambda>(k, h). RemoveListener j k h) (listeners n))"
  by (cases "socketInstance q")
    (simp_all add: effectCleanup_def forEachKey_listeners fold_removeListener)

section \<open>Properties of the console\<close>

subsection \<open>Event router\<close>

text \<open>
  C1. An activation (the effect runs with \<^verbatim>\<open>connected\<close> true and an instance \<open>i\<close>) adds to
  the instance's listeners exactly the entries of the \<^verbatim>\<open>listeners\<close> record, whose keys are
  the seven recognized event names, each once, and sends exactly one request, the replay
  request without payload. After events were delivered, the deactivation that follows,
  be it the removal of the component or a render in which the joint condition no longer
  holds, leaves the listeners as they were before the activation. When nobody else listened
  on the instance, an event of any name delivered after that changes nothing at all, the
  visible buffer included.
\<close>

theorem C1_register_and_unregister:
  assumes "connected p" and "socketInstance p = Some i"
    and "w1 = deliver evs (effectBody n p w)"
    and "c = \<lparr>lastProps = p, lastRun = n\<rparr>"
  shows "registry (effectBody n p w) = registry w @ map (\<lambda>(name, h). (i, name, h)) (listeners n)
    \<and> map fst (listeners n) = map eventName recognizedEvents
    \<and> distinct (map eventName recognizedEvents)
    \<and> outbox (effectBody n p w) = outbox w @ [(i, SEND_LOGS, None)]
    \<and> registry (unmount (c, w1)) = registry w
    \<and> (\<not> active p' \<longrightarrow> registry (snd (rerender p' (c, w1))) = registry w)
    \<and> ((\<forall>r \<in> set (registry w). fst r \<noteq> i) \<longrightarrow>
         emit i name payload (unmount (c, w1)) = unmount (c, w1)
         \<and> (\<not> active p' \<longrightarrow>
              emit i name payload (snd (rerender p' (c, w1))) = snd (rerender p' (c, w1))))"
proof -
  have un: "registry (unmount (c, w1)) = registry w"
    by (simp add: unmount_def assms(3,4) cleanup_after_effect [OF assms(1,2)])
  have re: "registry (snd (rerender p' (c, w1))) = registry w" if "\<not> active p'"
  proof -
    from that assms(1,2) have "depsChanged p p'" by (auto simp: depsChanged_def active_def)
    then show ?thesis
      by (simp add: rerender_def Let_def effectBody_inactive [OF that] assms(3,4)
          cleanup_after_effect [OF assms(1,2)])
  qed
  show ?thesis
    using un re
    by (simp add: effectBody_active [OF assms(1,2)] listeners_keys eventNames_distinct
        emit_no_listeners)
qed

theorem C1_register_and_unregister_witness:
  "connected \<lparr>connected = True, socketInstance = Some 7, isTransferring = False\<rparr>
   \<and> \<not> active \<lparr>connected = False, socketInstance = Some 7, isTransferring = False\<rparr>
   \<and> length (registry (effectBody 0
        \<lparr>connected = True, socketInstance = Some 7, isTransferring = False\<rparr> emptyWorld)) = 7
   \<and> outbox (effectBody 0
        \<lparr>connected = True, socketInstance = Some 7, isTransferring = False\<rparr> emptyWorld) =
        [(7, SEND_LOGS, None)]
   \<and> registry (unmount (\<lparr>lastProps =
          \<lparr>connected = True, socketInstance = Some 7, isTransferring = False\<rparr>, lastRun = 0\<rparr>,
        deliver [(7, js ''console output'', js ''hello'')] (effectBody 0
          \<lparr>connected = True, socketInstance = Some 7, isTransferring = False\<rparr> emptyWorld))) = []
   \<and> emit 7 (js ''status'') (js ''running'')
        (snd (rerender \<lparr>connected = False, socketInstance = Some 7, isTransferring = False\<rparr>
          (\<lparr>lastProps =
             \<lparr>connected = True, socketInstance = Some 7, isTransferring = False\<rparr>, lastRun = 0\<rparr>,
           deliver [(7, js ''console output'', js ''hello'')] (effectBody 0
             \<lparr>connected = True, socketInstance = Some 7, isTransferring = False\<rparr> emptyWorld)))) =
        snd (rerender \<lparr>connected = False, socketInstance = Some 7, isTransferring = False\<rparr>
          (\<lparr>lastProps =
             \<lparr>connected = True, socketInstance = Some 7, isTransferring = False\<rparr>, lastRun = 0\<rparr>,
           deliver [(7, js ''console output'', js ''hello'')] (effectBody 0
             \<lparr>connected = True, socketInstance = Some 7, isTransferring = False\<rparr> emptyWorld)))"
  using C1_register_and_unregister
    [of "\<lparr>connected = True, socketInstance = Some 7, isTransferring = False\<rparr>" 7
      "deliver [(7, js ''console output'', js ''hello'')] (effectBody 0
          \<lparr>connected = True, socketInstance = Some 7, isTransferring = False\<rparr> emptyWorld)"
      "[(7, js ''console output'', js ''hello'')]" 0 emptyWorld
      "\<lparr>lastProps =
          \<lparr>connected = True, socketInstance = Some 7, isTransferring = False\<rparr>, lastRun = 0\<rparr>"
      "\<lparr>connected = False, socketInstance = Some 7, isTransferring = False\<rparr>"
      "js ''status''" "js ''running''"]
  by (simp add: active_def emptyWorld_def listeners_eq)

subsection \<open>Clearing the buffer on connect\<close>

text \<open>
  C2. The effect runs again exactly when \<^verbatim>\<open>connected\<close> or \<^verbatim>\<open>instance\<close> changed, so the
  props of its last run tell whether the joint condition held in the render before. On a
  render that enters the joint condition from a render where it did not hold, and on a
  first render in which it holds, \<^verbatim>\<open>terminal.clear\<close> is called if and only if
  \<^verbatim>\<open>isTransferring\<close> is false: the buffer is empty afterwards when the server is not
  being transferred and is the buffer of before when it is.
\<close>

theorem C2_clear_unless_transferring:
  assumes "active p" and "\<not> active (lastProps c)"
  shows "buffer (snd (rerender p (c, w))) = (if isTransferring p then buffer w else [])
    \<and> (TerminalClear \<in> set (drop (length (calls w)) (calls (snd (rerender p (c, w)))))
         \<longleftrightarrow> \<not> isTransferring p)
    \<and> buffer (snd (mount p w)) = (if isTransferring p then buffer w else [])
    \<and> (TerminalClear \<in> set (drop (length (calls w)) (calls (snd (mount p w))))
         \<longleftrightarrow> \<not> isTransferring p)"
proof -
  from assms(1) obtain i where p: "connected p" "socketInstance p = Some i"
    by (auto simp: active_def)
  from assms have ch: "depsChanged (lastProps c) p"
    by (auto simp: depsChanged_def active_def)
  show ?thesis
    using ch
    by (auto simp: rerender_def mount_def Let_def effectBody_active [OF p]
        effectCleanup_buffer effectCleanup_calls split: option.split)
qed

theorem C2_clear_unless_transferring_witness:
  "active \<lparr>connected = True, socketInstance = Some 7, isTransferring = True\<rparr>
   \<and> \<not> active (lastProps \<lparr>lastProps =
        \<lparr>connected = False, socketInstance = Some 7, isTransferring = True\<rparr>, lastRun = 3\<rparr>)
   \<and> buffer (snd (rerender \<lparr>connected = True, socketInstance = Some 7, isTransferring = True\<rparr>
        (\<lparr>lastProps = \<lparr>connected = False, socketInstance = Some 7, isTransferring = True\<rparr>,
          lastRun = 3\<rparr>,
         emptyWorld\<lparr>buffer := [js ''one'', js ''two'', js ''three'']\<rparr>))) =
       [js ''one'', js ''two'', js ''three'']"
  using C2_clear_unless_transferring
    [of "\<lparr>connected = True, socketInstance = Some 7, isTransferring = True\<rparr>"
      "\<lparr>lastProps = \<lparr>connected = False, socketInstance = Some 7, isTransferring = True\<rparr>,
        lastRun = 3\<rparr>"
      "emptyWorld\<lparr>buffer := [js ''one'', js ''two'', js ''three'']\<rparr>"]
  by (simp add: active_def)

subsection \<open>History navigation\<close>

text \<open>
  C3. \<^verbatim>\<open>ArrowUp\<close> sets the cursor to \<open>min (cursor + 1) (N - 1)\<close> and \<^verbatim>\<open>ArrowDown\<close> to
  \<open>max (cursor - 1) (-1)\<close>, \<open>N\<close> being the length of the history. After any run of these
  two keys from cursor \<open>-1\<close> the history is untouched and the cursor lies in \<open>[-1, N - 1]\<close>
  (so it is \<open>-1\<close> on an empty history). Once a key was pressed, the input element holds
  what its value setter keeps of the entry under the cursor when the cursor is at least
  0, and the empty string when it is \<open>-1\<close>. The history holds what was submitted from
  this very element, entries without CR and LF; for such a history the input element
  holds the entry under the cursor itself.
\<close>

theorem C3_history_cursor:
  assumes "historyIndex c = - 1"
    and "set keys \<subseteq> {js ''ArrowUp'', js ''ArrowDown''}"
    and "c' = fst (pressKeys i keys (c, w))"
  shows "historyIndex (fst (handleCommandKeyDown i (js ''ArrowUp'') (d, w))) =
           min (historyIndex d + 1) (int (length (history d)) - 1)
    \<and> historyIndex (fst (handleCommandKeyDown i (js ''ArrowDown'') (d, w))) =
           max (historyIndex d - 1) (- 1)
    \<and> history c' = history c
    \<and> - 1 \<le> historyIndex c'
    \<and> historyIndex c' \<le> int (length (history c)) - 1
    \<and> (keys \<noteq> [] \<longrightarrow>
          inputValue c' =
            setValue (if 0 \<le> historyIndex c' then history c ! nat (historyIndex c') else []))
    \<and> (keys \<noteq> [] \<and> (\<forall>e \<in> set (history c). CR \<notin> set e \<and> LF \<notin> set e) \<longrightarrow>
          inputValue c' = (if 0 \<le> historyIndex c' then history c ! nat (historyIndex c') else []))
    \<and> (history c = [] \<longrightarrow> historyIndex c' = - 1)"
proof -
  have lo: "- 1 \<le> historyIndex c" and hi: "historyIndex c \<le> int (length (history c)) - 1"
    using assms(1) by simp_all
  have run: "history c' = history c \<and> - 1 \<le> historyIndex c'
     \<and> historyIndex c' \<le> int (length (history c)) - 1
     \<and> (keys \<noteq> [] \<longrightarrow>
          inputValue c' =
            setValue (if 0 \<le> historyIndex c' then history c ! nat (historyIndex c') else []))"
    by (rule nav_keys [OF lo hi assms(2,3)])
  then have empty: "history c = [] \<longrightarrow> historyIndex c' = - 1" by auto
  have shown: "inputValue c' =
      (if 0 \<le> historyIndex c' then history c ! nat (historyIndex c') else [])"
    if pressed: "keys \<noteq> []"
      and clean: "\<forall>e \<in> set (history c). CR \<notin> set e \<and> LF \<notin> set e"
  proof (cases "0 \<le> historyIndex c'")
    case True
    with run have "nat (historyIndex c') < length (history c)" by auto
    then have "history c ! nat (historyIndex c') \<in> set (history c)" by simp
    with clean have "setValue (history c ! nat (historyIndex c')) = history c ! nat (historyIndex c')"
      by (simp add: setValue_clean)
    with run pressed True show ?thesis by simp
  next
    case False
    with run pressed show ?thesis by (simp add: setValue_Nil)
  qed
  show ?thesis
    using run empty shown by (simp add: arrowUp_step arrowDown_step)
qed

theorem C3_history_cursor_witness:
  "historyIndex (initialConsole\<lparr>history := [js ''ls'', js ''pwd'']\<rparr>) = - 1
   \<and> set [js ''ArrowUp'', js ''ArrowUp'', js ''ArrowUp'', js ''ArrowDown'']
        \<subseteq> {js ''ArrowUp'', js ''ArrowDown''}
   \<and> [js ''ArrowUp'', js ''ArrowUp'', js ''ArrowUp'', js ''ArrowDown''] \<noteq> []
   \<and> CR \<notin> set (js ''ls'') \<and> LF \<notin> set (js ''ls'')
   \<and> CR \<notin> set (js ''pwd'') \<and> LF \<notin> set (js ''pwd'')
   \<and> historyIndex (fst (pressKeys None
        [js ''ArrowUp'', js ''ArrowUp'', js ''ArrowUp'', js ''ArrowDown'']
        (initialConsole\<lparr>history := [js ''ls'', js ''pwd'']\<rparr>, emptyWorld))) = 0
   \<and> inputValue (fst (pressKeys None
        [js ''ArrowUp'', js ''ArrowUp'', js ''ArrowUp'', js ''ArrowDown'']
        (initialConsole\<lparr>history := [js ''ls'', js ''pwd'']\<rparr>, emptyWorld))) = js ''ls''"
proof -
  have clean: "CR \<notin> set (js ''ls'') \<and> LF \<notin> set (js ''ls'')
      \<and> CR \<notin> set (js ''pwd'') \<and> LF \<notin> set (js ''pwd'')"
    by (simp add: js_def CR_def LF_def)
  show ?thesis
    using C3_history_cursor
      [of "initialConsole\<lparr>history := [js ''ls'', js ''pwd'']\<rparr>"
        "[js ''ArrowUp'', js ''ArrowUp'', js ''ArrowUp'', js ''ArrowDown'']"
        "fst (pressKeys None
          [js ''ArrowUp'', js ''ArrowUp'', js ''ArrowUp'', js ''ArrowDown'']
          (initialConsole\<lparr>history := [js ''ls'', js ''pwd'']\<rparr>, emptyWorld))"
        None emptyWorld initialConsole]
      clean
    by (simp add: pressKeys_def arrowUp_step arrowDown_step initialConsole_def orEmpty_index
        setValue_clean)
qed

subsection \<open>The history store\<close>

text \<open>
  C4. Submitting a non-empty command \<open>C\<close> on a history \<open>H\<close> stores the first 32 elements of
  \<open>C # H\<close>; on a history of length 31 that is \<open>C # H\<close> itself. No key event makes a history
  of at most 32 entries longer than 32. Submitting 40 distinct non-empty commands one
  after the other, from any stored history, leaves exactly the last 32 of them, the most
  recent first.
\<close>

theorem C4_history_append:
  "(command \<noteq> [] \<longrightarrow>
      history (fst (submit i command (c, w))) = take 32 (command # history c)
      \<and> length (history (fst (submit i command (c, w)))) \<le> 32
      \<and> (length (history c) = 31 \<longrightarrow>
           history (fst (submit i command (c, w))) = command # history c))
   \<and> (length (history c) \<le> 32 \<longrightarrow>
        length (history (fst (handleCommandKeyDown i key (c, w)))) \<le> 32)
   \<and> ([] \<notin> set commands \<and> distinct commands \<and> length commands = 40 \<longrightarrow>
        history (fst (fold (submit i) commands (c, w))) = rev (drop 8 commands)
        \<and> length (history (fst (fold (submit i) commands (c, w)))) = 32)"
proof (intro conjI impI)
  assume a: "command \<noteq> []"
  show "history (fst (submit i command (c, w))) = take 32 (command # history c)"
    by (rule submit_history [OF a])
  show "length (history (fst (submit i command (c, w)))) \<le> 32"
    by (simp add: submit_history [OF a])
  assume "length (history c) = 31"
  then show "history (fst (submit i command (c, w))) = command # history c"
    by (simp add: submit_history [OF a])
next
  assume "length (history c) \<le> 32"
  then show "length (history (fst (handleCommandKeyDown i key (c, w)))) \<le> 32"
    by (rule length_history_after_key)
next
  assume h: "[] \<notin> set commands \<and> distinct commands \<and> length commands = 40"
  then have ne: "commands \<noteq> []" by auto
  from h have "history (fst (fold (submit i) commands (c, w))) = take 32 (rev commands)"
    by (simp add: submit_all_history [OF _ ne])
  also have "\<dots> = rev (drop 8 commands)"
    using h by (simp add: take_rev)
  finally show r: "history (fst (fold (submit i) commands (c, w))) = rev (drop 8 commands)" .
  show "length (history (fst (fold (submit i) commands (c, w)))) = 32"
    using h by (simp add: r)
qed

theorem C4_history_append_witness:
  "js ''ls'' \<noteq> []
   \<and> [] \<notin> set (map (\<lambda>n. [of_nat n]) [1..<41] :: jsstring list)
   \<and> distinct (map (\<lambda>n. [of_nat n]) [1..<41] :: jsstring list)
   \<and> length (map (\<lambda>n. [of_nat n]) [1..<41] :: jsstring list) = 40
   \<and> history (fst (submit None (js ''ls'') (initialConsole, emptyWorld))) = [js ''ls'']
   \<and> history (fst (fold (submit None) (map (\<lambda>n. [of_nat n]) [1..<41])
        (initialConsole, emptyWorld))) =
      rev (drop 8 (map (\<lambda>n. [of_nat n]) [1..<41]))"
proof -
  let ?cs = "map (\<lambda>n. [of_nat n]) [1..<41] :: jsstring list"
  have n: "js ''ls'' \<noteq> []" by (simp add: js_def)
  have h: "[] \<notin> set ?cs \<and> distinct ?cs \<and> length ?cs = 40"
    by code_simp
  have e: "history initialConsole = []" by (simp add: initialConsole_def)
  show ?thesis
    using C4_history_append [of "js ''ls''" None initialConsole emptyWorld "js ''Enter''" ?cs]
      n h e
    by simp
qed

subsection \<open>The Enter key\<close>

text \<open>
  C5. The input element accepts keys only while an instance is attached
  (\<^verbatim>\<open>disabled={!instance || !connected}\<close>). With an instance \<open>i\<close> and a non-empty text in
  the input element, Enter stores the text at the front of the history (trimmed to 32),
  sets the cursor to \<open>-1\<close>, sends to \<open>i\<close> the one request \<^verbatim>\<open>send command\<close> with the text
  as its payload, and empties the input element. With an empty input element Enter does
  nothing, whatever the instance: history, cursor, text and the world stay as they are.
\<close>

theorem C5_enter_key:
  "(inputValue c \<noteq> [] \<longrightarrow>
      handleCommandKeyDown (Some i) (js ''Enter'') (c, w) =
        (c\<lparr>defaultPrevented := False,
           history := take 32 (inputValue c # history c),
           historyIndex := - 1,
           inputValue := []\<rparr>,
         w\<lparr>outbox := outbox w @ [(i, js ''send command'', Some (inputValue c))],
           calls := calls w @ [Send i (js ''send command'') (Some (inputValue c))]\<rparr>))
   \<and> (inputValue c = [] \<longrightarrow>
        handleCommandKeyDown instance (js ''Enter'') (c, w) =
          (c\<lparr>defaultPrevented := False\<rparr>, w))"
  by (simp add: enter_step send_def)

theorem C5_enter_key_witness:
  "inputValue (initialConsole\<lparr>inputValue := js ''say hi''\<rparr>) \<noteq> []
   \<and> inputValue initialConsole = []
   \<and> handleCommandKeyDown (Some 7) (js ''Enter'')
        (initialConsole\<lparr>inputValue := js ''say hi''\<rparr>, emptyWorld) =
      (initialConsole\<lparr>history := [js ''say hi'']\<rparr>,
       emptyWorld\<lparr>outbox := [(7, js ''send command'', Some (js ''say hi''))],
         calls := [Send 7 (js ''send command'') (Some (js ''say hi''))]\<rparr>)
   \<and> handleCommandKeyDown (Some 7) (js ''Enter'') (initialConsole, emptyWorld) =
      (initialConsole, emptyWorld)"
  using C5_enter_key [of "initialConsole\<lparr>inputValue := js ''say hi''\<rparr>" 7 emptyWorld "Some 7"]
    C5_enter_key [of initialConsole 7 emptyWorld "Some 7"]
  by (simp add: initialConsole_def emptyWorld_def js_def)

subsection \<open>Rendering\<close>

text \<open>
  C6. A console-output payload is meant to be written as it is, less one line terminator
  at its very end. The regular expression carries the \<^verbatim>\<open>m\<close> flag, under which
  \<^verbatim>\<open>$\<close> also holds in front of every line terminator, and only the first match is replaced.
  On the payload \<^verbatim>\<open>"a\r\nb\n"\<close> the first match is the CR in front of the first LF: the line
  written is \<^verbatim>\<open>"a\nb\n"\<close> followed by the reset marker, with the CR inside the payload gone
  and the terminator at the end still there.
\<close>

theorem C6_interior_terminator_removed:
  "buffer (handleConsoleOutput (js ''a'' @ [CR, LF] @ js ''b'' @ [LF]) False w) =
     buffer w @ [js ''a'' @ [LF] @ js ''b'' @ [LF] @ RESET]"
  by (simp add: handleConsoleOutput_def terminal_writeln_def regex_defs)

text \<open>
  C7. The transfer-status handler writes the failure notice, behind the prelude, exactly
  when the payload is \<^verbatim>\<open>failure\<close>, and the archive notice, behind the prelude, exactly when
  it is \<^verbatim>\<open>archive\<close>. On every other payload, \<^verbatim>\<open>bogus\<close> for one, it returns the world it was
  given: nothing is written and nothing fails.
\<close>

theorem C7_transfer_status:
  "(buffer (handleTransferStatus status w) =
      buffer w @ [TERMINAL_PRELUDE @ js ''Transfer has failed.'' @ RESET]
    \<longleftrightarrow> status = js ''failure'')
   \<and> (buffer (handleTransferStatus status w) =
        buffer w @ [TERMINAL_PRELUDE
          @ js ''Server has been archived successfully, attempting connection to target node..''
          @ RESET]
      \<longleftrightarrow> status = js ''archive'')
   \<and> (status \<noteq> js ''failure'' \<and> status \<noteq> js ''archive'' \<longrightarrow>
        handleTransferStatus status w = w)
   \<and> handleTransferStatus (js ''bogus'') w = w"
  by (simp add: handleTransferStatus_def terminal_writeln_def js_def)

theorem C7_transfer_status_witness:
  "js ''bogus'' \<noteq> js ''failure'' \<and> js ''bogus'' \<noteq> js ''archive''
   \<and> handleTransferStatus (js ''bogus'') emptyWorld = emptyWorld
   \<and> buffer (handleTransferStatus (js ''failure'') emptyWorld) =
       [TERMINAL_PRELUDE @ js ''Transfer has failed.'' @ RESET]"
  using C7_transfer_status [of "js ''bogus''" emptyWorld]
    C7_transfer_status [of "js ''failure''" emptyWorld]
  by (simp add: emptyWorld_def js_def)

text \<open>
  C8. Whatever a handler writes for an event ends with the reset marker: each line a
  handler adds to the buffer has \<^verbatim>\<open>'\u001b[0m'\<close> as its last four code units, and the
  terminal ends the line after it. The daemon-error payload \<^verbatim>\<open>"boom\n"\<close> is written as the
  prelude, the bold and red-background markers, \<^verbatim>\<open>boom\<close> without its terminator, and the
  reset marker.
\<close>

theorem C8_reset_closes_every_line:
  "(\<forall>line \<in> set (drop (length (buffer w)) (buffer (runHandler k payload w))).
      suffix RESET line)
   \<and> buffer (handleDaemonErrorOutput (js ''boom'' @ [LF]) w) =
       buffer w @ [TERMINAL_PRELUDE @ (ESC # js ''[1m'' @ ESC # js ''[41m'')
                     @ js ''boom'' @ RESET]"
proof
  show "\<forall>line \<in> set (drop (length (buffer w)) (buffer (runHandler k payload w))).
          suffix RESET line"
    by (cases k)
      (simp_all add: handlePowerChangeEvent_def handleConsoleOutput_def
        handleTransferStatus_def handleDaemonErrorOutput_def terminal_writeln_def suffix_def)
  show "buffer (handleDaemonErrorOutput (js ''boom'' @ [LF]) w) =
       buffer w @ [TERMINAL_PRELUDE @ (ESC # js ''[1m'' @ ESC # js ''[41m'')
                     @ js ''boom'' @ RESET]"
    by (simp add: handleDaemonErrorOutput_def terminal_writeln_def regex_defs)
qed

theorem C8_reset_closes_every_line_witness:
  "buffer (runHandler HandleDaemonErrorOutput (js ''boom'' @ [LF]) emptyWorld) =
     [TERMINAL_PRELUDE @ (ESC # js ''[1m'' @ ESC # js ''[41m'') @ js ''boom'' @ RESET]
   \<and> suffix RESET
        (TERMINAL_PRELUDE @ (ESC # js ''[1m'' @ ESC # js ''[41m'') @ js ''boom'' @ RESET)"
  using C8_reset_closes_every_line
    [of emptyWorld HandleDaemonErrorOutput "js ''boom'' @ [LF]"]
  by (simp add: emptyWorld_def)

subsection \<open>Order of the side effects\<close>

text \<open>
  C9. The calls an activation makes are, in this order: \<^verbatim>\<open>terminal.clear\<close> when the server
  is not being transferred (and no call when it is), then one \<^verbatim>\<open>addListener\<close> for each
  entry of the \<^verbatim>\<open>listeners\<close> record, then the replay request. Nothing is written to the
  buffer in between, so the request is sent with the buffer as the clear decision left it.
\<close>

theorem C9_activation_order:
  assumes "connected p" and "socketInstance p = Some i"
  shows "calls (effectBody n p w) =
       calls w @ (if isTransferring p then [] else [TerminalClear])
         @ map (\<lambda>(name, h). AddListener i name h) (listeners n)
         @ [Send i SEND_LOGS None]
    \<and> buffer (effectBody n p w) = (if isTransferring p then buffer w else [])"
  by (simp add: effectBody_active [OF assms])

theorem C9_activation_order_witness:
  "connected \<lparr>connected = True, socketInstance = Some 7, isTransferring = False\<rparr>
   \<and> socketInstance \<lparr>connected = True, socketInstance = Some 7, isTransferring = False\<rparr>
       = Some 7
   \<and> take 2 (calls (effectBody 0
        \<lparr>connected = True, socketInstance = Some 7, isTransferring = False\<rparr> emptyWorld)) =
       [TerminalClear, AddListener 7 (js ''status'') (0, HandlePowerChangeEvent)]
   \<and> last (calls (effectBody 0
        \<lparr>connected = True, socketInstance = Some 7, isTransferring = False\<rparr> emptyWorld)) =
       Send 7 SEND_LOGS None
   \<and> length (calls (effectBody 0
        \<lparr>connected = True, socketInstance = Some 7, isTransferring = False\<rparr> emptyWorld)) = 9"
  using C9_activation_order
    [of "\<lparr>connected = True, socketInstance = Some 7, isTransferring = False\<rparr>" 7 0 emptyWorld]
  by (simp add: emptyWorld_def listeners_eq)

subsection \<open>Enter without an instance\<close>

text \<open>
  C10. Should the handler run on Enter with a non-empty text while \<^verbatim>\<open>instance\<close> is
  \<^verbatim>\<open>null\<close>, the text is still stored at the front of the history (trimmed to 32), the
  cursor is still set to \<open>-1\<close> and the input element emptied, and the world is the one of
  before: no request is sent and nothing fails.
\<close>

theorem C10_enter_without_instance:
  "inputValue c \<noteq> [] \<Longrightarrow>
     handleCommandKeyDown None (js ''Enter'') (c, w) =
       (c\<lparr>defaultPrevented := False,
          history := take 32 (inputValue c # history c),
          historyIndex := - 1,
          inputValue := []\<rparr>, w)"
  by (simp add: enter_step)

theorem C10_enter_without_instance_witness:
  "inputValue (initialConsole\<lparr>inputValue := js ''say hi''\<rparr>) \<noteq> []
   \<and> handleCommandKeyDown None (js ''Enter'')
        (initialConsole\<lparr>inputValue := js ''say hi''\<rparr>, emptyWorld) =
      (initialConsole\<lparr>history := [js ''say hi'']\<rparr>, emptyWorld)"
  using C10_enter_without_instance [of "initialConsole\<lparr>inputValue := js ''say hi''\<rparr>" emptyWorld]
  by (simp add: initialConsole_def js_def)

end
